theory Spec2Isabelle
  imports Main
begin

section \<open>Text: the string operations of the source\<close>

text \<open>
  Utterances are Python \<open>str\<close> values. They are modelled as \<open>string\<close>, each \<open>char\<close>
  being the code point of one character below 256. The classifications below (digit,
  whitespace, word character, cased character) and the case mappings are the ones that
  Python's \<open>str\<close> methods and \<open>re\<close> module apply to these code points.
\<close>

definition code_point :: "char \<Rightarrow> nat" where
  "code_point c = of_char c"

text \<open>The class \<open>\d\<close>: below 256 the decimal digits are the ASCII ones.\<close>

definition is_digit :: "char \<Rightarrow> bool" where
  "is_digit c = (c \<in> set ''0123456789'')"

definition is_upper :: "char \<Rightarrow> bool" where
  "is_upper c = (c \<in> set ''ABCDEFGHIJKLMNOPQRSTUVWXYZ'')"

definition is_lower :: "char \<Rightarrow> bool" where
  "is_lower c = (c \<in> set ''abcdefghijklmnopqrstuvwxyz'')"

text \<open>The ASCII letters: what the classes \<open>[A-Z]\<close> and \<open>[a-z]\<close> accept, also under
  \<open>re.IGNORECASE\<close>, among the code points below 256.\<close>

definition is_alpha :: "char \<Rightarrow> bool" where
  "is_alpha c = (is_upper c \<or> is_lower c)"

text \<open>\<open>str.isspace\<close>, \<open>str.split\<close> and the class \<open>\s\<close>: tab, line feed, vertical tab,
  form feed, carriage return, the four separators 0x1C to 0x1F, the space, the next-line
  control 0x85 and the no-break space 0xA0.\<close>

definition is_space :: "char \<Rightarrow> bool" where
  "is_space c = (c \<in> set [CHR 0x09, CHR 0x0A, CHR 0x0B, CHR 0x0C, CHR 0x0D,
                           CHR 0x1C, CHR 0x1D, CHR 0x1E, CHR 0x1F, CHR '' '',
                           CHR 0x85, CHR 0xA0])"

text \<open>The class \<open>\w\<close>, which decides the word boundary \<open>\b\<close>: the ASCII letters and
  digits, the underscore, and the letters and numbers of the upper half.\<close>

definition is_word :: "char \<Rightarrow> bool" where
  "is_word c =
     (is_alpha c \<or> is_digit c \<or> c = CHR ''_'' \<or>
      (let n = code_point c in
       n = 0xAA \<or> n = 0xB2 \<or> n = 0xB3 \<or> n = 0xB5 \<or> n = 0xB9 \<or> n = 0xBA \<or>
       (0xBC \<le> n \<and> n \<le> 0xBE) \<or> (0xC0 \<le> n \<and> n \<le> 0xD6) \<or>
       (0xD8 \<le> n \<and> n \<le> 0xF6) \<or> 0xF8 \<le> n))"

text \<open>The lower case of a character: the capital letters, ASCII and 0xC0 to 0xDE
  without the multiplication sign 0xD7, are moved by 0x20.\<close>

definition lower_char :: "char \<Rightarrow> char" where
  "lower_char c =
     (let n = code_point c in
      if (0x41 \<le> n \<and> n \<le> 0x5A) \<or> (0xC0 \<le> n \<and> n \<le> 0xD6) \<or> (0xD8 \<le> n \<and> n \<le> 0xDE)
      then char_of (n + 0x20) else c)"

text \<open>The characters with a case, which \<open>str.title\<close> counts as part of a word.\<close>

definition is_cased :: "char \<Rightarrow> bool" where
  "is_cased c =
     (is_alpha c \<or>
      (let n = code_point c in
       n = 0xAA \<or> n = 0xB5 \<or> n = 0xBA \<or> (0xC0 \<le> n \<and> n \<le> 0xD6) \<or>
       (0xD8 \<le> n \<and> n \<le> 0xF6) \<or> 0xF8 \<le> n))"

text \<open>
  The title case of a character, as text: the small letters, ASCII and 0xE0 to 0xFE
  without the division sign 0xF7, are moved by 0x20, and the sharp s 0xDF becomes
  \<open>Ss\<close>. The title case of the micro sign 0xB5 and of 0xFF is a code point above 255;
  these two are left as they are.
\<close>

definition title_char :: "char \<Rightarrow> string" where
  "title_char c =
     (let n = code_point c in
      if is_lower c \<or> (0xE0 \<le> n \<and> n \<le> 0xF6) \<or> (0xF8 \<le> n \<and> n \<le> 0xFE)
      then [char_of (n - 0x20)]
      else if n = 0xDF then ''Ss''
      else [c])"

text \<open>\<open>str.lower\<close>.\<close>

definition lower :: "string \<Rightarrow> string" where
  "lower s = map lower_char s"

fun starts_with :: "string \<Rightarrow> string \<Rightarrow> bool" where
  "starts_with [] s = True"
| "starts_with (k # ks) [] = False"
| "starts_with (k # ks) (c # cs) = (k = c \<and> starts_with ks cs)"

text \<open>\<open>sub in s\<close> on strings: \<open>sub\<close> occurs somewhere in \<open>s\<close>.\<close>

fun contains :: "string \<Rightarrow> string \<Rightarrow> bool" where
  "contains sub [] = (sub = [])"
| "contains sub (c # cs) = (starts_with sub (c # cs) \<or> contains sub cs)"

text \<open>\<open>any(k in s for k in keywords)\<close>.\<close>

definition any_in :: "string list \<Rightarrow> string \<Rightarrow> bool" where
  "any_in keywords s = list_ex (\<lambda>k. contains k s) keywords"

text \<open>\<open>str.split()\<close> with no argument: the maximal runs of non-whitespace.\<close>

fun split_ws :: "string \<Rightarrow> string \<Rightarrow> string list" where
  "split_ws cur [] = (if cur = [] then [] else [cur])"
| "split_ws cur (c # cs) =
     (if is_space c then (if cur = [] then split_ws [] cs else cur # split_ws [] cs)
      else split_ws (cur @ [c]) cs)"

definition split :: "string \<Rightarrow> string list" where
  "split s = split_ws [] s"

text \<open>\<open>sep.join(parts)\<close>.\<close>

fun join :: "string \<Rightarrow> string list \<Rightarrow> string" where
  "join sep [] = []"
| "join sep [p] = p"
| "join sep (p # q # ps) = p @ sep @ join sep (q # ps)"

text \<open>\<open>str.capitalize\<close>: the first character in title case, the rest in lower case.\<close>

definition capitalize :: "string \<Rightarrow> string" where
  "capitalize s = (case s of [] \<Rightarrow> [] | c # cs \<Rightarrow> title_char c @ lower cs)"

text \<open>\<open>str.title\<close>: a cased character that follows a cased character is lowered, any
  other cased character is put in title case; the flag says whether the previous
  character was cased.\<close>

fun title_from :: "bool \<Rightarrow> string \<Rightarrow> string" where
  "title_from prev [] = []"
| "title_from prev (c # cs) =
     (if is_cased c
      then (if prev then [lower_char c] else title_char c) @ title_from True cs
      else c # title_from False cs)"

definition title :: "string \<Rightarrow> string" where
  "title s = title_from False s"

text \<open>\<open>s.replace(c, '')\<close> for a single character \<open>c\<close>.\<close>

definition remove_char :: "char \<Rightarrow> string \<Rightarrow> string" where
  "remove_char c s = filter (\<lambda>x. x \<noteq> c) s"

text \<open>\<open>int(s)\<close> on a string of decimal digits (the only strings it is applied to are
  regular-expression groups made of \<open>\d\<close>).\<close>

definition digit_val :: "char \<Rightarrow> nat" where
  "digit_val c = (case map_of (zip ''0123456789'' [0, 1, 2, 3, 4, 5, 6, 7, 8, 9]) c of
                    Some v \<Rightarrow> v | None \<Rightarrow> 0)"

definition int_of_digits :: "string \<Rightarrow> nat" where
  "int_of_digits s = foldl (\<lambda>acc c. 10 * acc + digit_val c) 0 s"

text \<open>The format \<open>{n:02d}\<close> for a natural number: decimal, at least two digits.\<close>

definition digit_char :: "nat \<Rightarrow> char" where
  "digit_char n = ''0123456789'' ! (n mod 10)"

fun decimal :: "nat \<Rightarrow> nat \<Rightarrow> string" where
  "decimal 0 n = []"
| "decimal (Suc w) n = decimal w (n div 10) @ [digit_char n]"

definition fmt_02d :: "nat \<Rightarrow> string" where
  "fmt_02d n = (if n < 100 then decimal 2 n else if n < 1000 then decimal 3 n else decimal 4 n)"

section \<open>Regular expressions: a backtracking matcher\<close>

text \<open>
  The source decides every extraction with \<open>re.search\<close>. The patterns are kept as data
  and run by one matcher with the semantics of Python's engine on them: alternatives in
  order, greedy repetition with backtracking, the leftmost start position first.
  A position is the character before it (if any) and the text after it.
\<close>

datatype rx =
    Cls "char \<Rightarrow> bool"
  | Eps
  | Seq rx rx
  | Alt rx rx
  | Rep nat nat rx
  | Star rx
  | Plus rx
  | Grp nat rx
  | Bol
  | Eol
  | Wordb

type_synonym pos = "char option \<times> string"
type_synonym caps = "nat \<Rightarrow> string option"

text \<open>\<open>rep m lo hi\<close>: between \<open>lo\<close> and \<open>hi\<close> rounds of the matcher \<open>m\<close>, as many as
  possible first.\<close>

fun rep :: "(pos \<Rightarrow> caps \<Rightarrow> (pos \<Rightarrow> caps \<Rightarrow> 'r option) \<Rightarrow> 'r option) \<Rightarrow> nat \<Rightarrow> nat \<Rightarrow>
            pos \<Rightarrow> caps \<Rightarrow> (pos \<Rightarrow> caps \<Rightarrow> 'r option) \<Rightarrow> 'r option" where
  "rep m lo 0 x g k = (if lo = 0 then k x g else None)"
| "rep m lo (Suc hi) x g k =
     (case m x g (\<lambda>x' g'. rep m (lo - 1) hi x' g' k) of
        Some r \<Rightarrow> Some r
      | None \<Rightarrow> (if lo = 0 then k x g else None))"

definition at_boundary :: "pos \<Rightarrow> bool" where
  "at_boundary x =
     ((case fst x of None \<Rightarrow> False | Some c \<Rightarrow> is_word c) \<noteq>
      (case snd x of [] \<Rightarrow> False | c # cs \<Rightarrow> is_word c))"

text \<open>\<open>$\<close> without MULTILINE: at the end, or before a line feed that ends the text.\<close>

definition at_end :: "pos \<Rightarrow> bool" where
  "at_end x = (snd x = [] \<or> snd x = [CHR 0x0A])"

primrec rmatch :: "rx \<Rightarrow> pos \<Rightarrow> caps \<Rightarrow> (pos \<Rightarrow> caps \<Rightarrow> 'r option) \<Rightarrow> 'r option" where
  "rmatch (Cls p) x g k =
     (case snd x of [] \<Rightarrow> None | c # cs \<Rightarrow> if p c then k (Some c, cs) g else None)"
| "rmatch Eps x g k = k x g"
| "rmatch (Seq a b) x g k = rmatch a x g (\<lambda>x' g'. rmatch b x' g' k)"
| "rmatch (Alt a b) x g k =
     (case rmatch a x g k of Some r \<Rightarrow> Some r | None \<Rightarrow> rmatch b x g k)"
| "rmatch (Rep lo hi a) x g k = rep (rmatch a) lo hi x g k"
| "rmatch (Star a) x g k = rep (rmatch a) 0 (length (snd x)) x g k"
| "rmatch (Plus a) x g k = rep (rmatch a) 1 (length (snd x)) x g k"
| "rmatch (Grp n a) x g k =
     rmatch a x g (\<lambda>x' g'. k x' (g'(n \<mapsto> take (length (snd x) - length (snd x')) (snd x))))"
| "rmatch Bol x g k = (if fst x = None then k x g else None)"
| "rmatch Eol x g k = (if at_end x then k x g else None)"
| "rmatch Wordb x g k = (if at_boundary x then k x g else None)"

text \<open>\<open>re.match\<close>: the groups of a match that starts at the given position.\<close>

definition match_at :: "rx \<Rightarrow> pos \<Rightarrow> caps option" where
  "match_at r x = rmatch r x (\<lambda>n. None) (\<lambda>x' g'. Some g')"

text \<open>\<open>re.match\<close> on a whole text: the groups, and the text left after the match.\<close>

definition match_prefix :: "rx \<Rightarrow> string \<Rightarrow> (caps \<times> string) option" where
  "match_prefix r s = rmatch r (None, s) (\<lambda>n. None) (\<lambda>x' g'. Some (g', snd x'))"

text \<open>\<open>re.search\<close>: the first start position, from the left, with a match.\<close>

fun search_from :: "rx \<Rightarrow> char option \<Rightarrow> string \<Rightarrow> caps option" where
  "search_from r prev [] = match_at r (prev, [])"
| "search_from r prev (c # cs) =
     (case match_at r (prev, c # cs) of
        Some g \<Rightarrow> Some g
      | None \<Rightarrow> search_from r (Some c) cs)"

definition search :: "rx \<Rightarrow> string \<Rightarrow> caps option" where
  "search r s = search_from r None s"

text \<open>\<open>m.group(n)\<close> of a group that took part in the match; the empty string stands
  for a group that did not (Python's \<open>None\<close>, which the source tests by truth value).\<close>

definition match_group :: "caps \<Rightarrow> nat \<Rightarrow> string" where
  "match_group g n = (case g n of None \<Rightarrow> [] | Some s \<Rightarrow> s)"

subsection \<open>Pattern building blocks\<close>

definition chr :: "char \<Rightarrow> rx" where
  "chr c = Cls (\<lambda>x. x = c)"

text \<open>A literal character under \<open>re.IGNORECASE\<close>.\<close>

definition ichr :: "char \<Rightarrow> rx" where
  "ichr c = Cls (\<lambda>x. lower_char x = lower_char c)"

definition lit :: "string \<Rightarrow> rx" where
  "lit s = foldr (\<lambda>c r. Seq (chr c) r) s Eps"

definition ilit :: "string \<Rightarrow> rx" where
  "ilit s = foldr (\<lambda>c r. Seq (ichr c) r) s Eps"

definition alts :: "rx list \<Rightarrow> rx" where
  "alts rs = (case rs of [] \<Rightarrow> Eps | r # rest \<Rightarrow> foldl Alt r rest)"

definition seqs :: "rx list \<Rightarrow> rx" where
  "seqs rs = foldr Seq rs Eps"

definition opt :: "rx \<Rightarrow> rx" where
  "opt r = Rep 0 1 r"

definition digit :: rx where
  "digit = Cls is_digit"

definition space :: rx where
  "space = Cls is_space"

text \<open>Under \<open>re.IGNORECASE\<close> both \<open>[A-Z]\<close> and \<open>[a-z]\<close> accept any ASCII letter.\<close>

definition letter :: rx where
  "letter = Cls is_alpha"

section \<open>The session context and the field extractor\<close>

text \<open>
  \<open>clinic_agent.py\<close> keeps, for each phone number, a dictionary \<open>context\<close>. The source
  only ever stores the keys below in it. A key that is absent is \<open>None\<close>;
  \<open>shown_slots\<close> is only ever stored as \<open>True\<close> and read with \<open>context.get\<close>, so its
  absence is \<open>False\<close>. The only values stored under \<open>stage\<close> are \<open>'small_talk'\<close> and
  \<open>'booking'\<close>; it is read with the default \<open>'greeting'\<close>.
\<close>

datatype stage = Greeting | Small_talk | Booking

record booking_context =
  name :: "string option"
  age :: "nat option"
  phone :: "string option"
  reason :: "string option"
  date :: "string option"
  time :: "string option"
  stage :: "stage option"
  shown_slots :: bool

definition empty_context :: booking_context where
  "empty_context = \<lparr>name = None, age = None, phone = None, reason = None, date = None,
                     time = None, stage = None, shown_slots = False\<rparr>"

subsection \<open>Calendar dates\<close>

text \<open>A \<open>datetime.date\<close> is its year, month and day; dates compare lexicographically.\<close>

type_synonym date = "nat \<times> nat \<times> nat"

definition date_less :: "date \<Rightarrow> date \<Rightarrow> bool" where
  "date_less a b =
     (case a of (y1, m1, d1) \<Rightarrow> case b of (y2, m2, d2) \<Rightarrow>
        y1 < y2 \<or> (y1 = y2 \<and> (m1 < m2 \<or> (m1 = m2 \<and> d1 < d2))))"

definition leap_year :: "nat \<Rightarrow> bool" where
  "leap_year y = (y mod 4 = 0 \<and> (y mod 100 \<noteq> 0 \<or> y mod 400 = 0))"

definition days_in_month :: "nat \<Rightarrow> nat \<Rightarrow> nat" where
  "days_in_month y m =
     (if m = 2 then (if leap_year y then 29 else 28)
      else if m = 4 \<or> m = 6 \<or> m = 9 \<or> m = 11 then 30 else 31)"

definition valid_date :: "date \<Rightarrow> bool" where
  "valid_date d =
     (case d of (y, m, dd) \<Rightarrow>
        1 \<le> y \<and> y \<le> 9999 \<and> 1 \<le> m \<and> m \<le> 12 \<and> 1 \<le> dd \<and> dd \<le> days_in_month y m)"

text \<open>\<open>d + timedelta(days=1)\<close>, for a date before the last day of the year 9999.\<close>

definition next_day :: "date \<Rightarrow> date" where
  "next_day d =
     (case d of (y, m, dd) \<Rightarrow>
        if dd < days_in_month y m then (y, m, dd + 1)
        else if m < 12 then (y, m + 1, 1)
        else (y + 1, 1, 1))"

text \<open>\<open>d.strftime("%Y-%m-%d")\<close>.\<close>

definition strftime_ymd :: "date \<Rightarrow> string" where
  "strftime_ymd d =
     (case d of (y, m, dd) \<Rightarrow> decimal 4 y @ ''-'' @ decimal 2 m @ ''-'' @ decimal 2 dd)"

text \<open>
  \<open>datetime.strptime(s, "%Y-%m-%d").date()\<close>. The library turns the format into the
  regular expression below, matches it at the start of \<open>s\<close>, and raises \<open>ValueError\<close>
  when it does not match, when text remains after the match, or when the three numbers
  are not a date. \<open>None\<close> is that \<open>ValueError\<close>.
\<close>

definition ymd_rx :: rx where
  "ymd_rx = seqs
     [Grp 1 (Rep 4 4 digit), chr CHR ''-'',
      Grp 2 (alts [Seq (chr CHR ''1'') (Cls (\<lambda>c. c \<in> set ''012'')),
                   Seq (chr CHR ''0'') (Cls (\<lambda>c. c \<in> set ''123456789'')),
                   Cls (\<lambda>c. c \<in> set ''123456789'')]),
      chr CHR ''-'',
      Grp 3 (alts [Seq (chr CHR ''3'') (Cls (\<lambda>c. c \<in> set ''01'')),
                   Seq (Cls (\<lambda>c. c \<in> set ''12'')) digit,
                   Seq (chr CHR ''0'') (Cls (\<lambda>c. c \<in> set ''123456789'')),
                   Cls (\<lambda>c. c \<in> set ''123456789''),
                   Seq (chr CHR '' '') (Cls (\<lambda>c. c \<in> set ''123456789''))])]"

definition strptime_ymd :: "string \<Rightarrow> date option" where
  "strptime_ymd s =
     (case match_prefix ymd_rx s of
        None \<Rightarrow> None
      | Some found \<Rightarrow>
          if snd found \<noteq> [] then None
          else (let g = fst found;
                    d = (int_of_digits (match_group g 1), int_of_digits (match_group g 2),
                         int_of_digits (remove_char CHR '' '' (match_group g 3)))
                in if valid_date d then Some d else None))"

subsection \<open>\<open>extract_patient_info\<close>\<close>

text \<open>\<open>(\d{1,3})\s*(?:years?|saal|sal|old)\<close>\<close>

definition age_rx :: rx where
  "age_rx = seqs
     [Grp 1 (Rep 1 3 digit), Star space,
      alts [Seq (lit ''year'') (opt (chr CHR ''s'')), lit ''saal'', lit ''sal'', lit ''old'']]"

text \<open>\<open>\b(\d{1,3})\b\<close>\<close>

definition number_rx :: rx where
  "number_rx = seqs [Wordb, Grp 1 (Rep 1 3 digit), Wordb]"

text \<open>\<open>03\d{2}[- ]?\d{7}\<close>, the whole match being group 0.\<close>

definition phone_rx :: rx where
  "phone_rx = Grp 0 (seqs
     [lit ''03'', Rep 2 2 digit, opt (Cls (\<lambda>c. c = CHR ''-'' \<or> c = CHR '' '')),
      Rep 7 7 digit])"

text \<open>\<open>[A-Z][a-z]+\<close> under \<open>re.IGNORECASE\<close>.\<close>

definition name_word :: rx where
  "name_word = Seq letter (Plus letter)"

text \<open>\<open>(?:my name is|i am|this is|naam hai|mera naam)\s+([A-Z][a-z]+(?:\s+[A-Z][a-z]+){0,3})\<close>
  under \<open>re.IGNORECASE\<close>.\<close>

definition name_rx1 :: rx where
  "name_rx1 = seqs
     [alts [ilit ''my name is'', ilit ''i am'', ilit ''this is'', ilit ''naam hai'',
            ilit ''mera naam''],
      Plus space,
      Grp 1 (Seq name_word (Rep 0 3 (Seq (Plus space) name_word)))]"

text \<open>\<open>^([A-Z][a-z]+(?:\s+[A-Z][a-z]+){1,3})$\<close> under \<open>re.IGNORECASE\<close>.\<close>

definition name_rx2 :: rx where
  "name_rx2 = seqs
     [Bol, Grp 1 (Seq name_word (Rep 1 3 (Seq (Plus space) name_word))), Eol]"

definition name_patterns :: "rx list" where
  "name_patterns = [name_rx1, name_rx2]"

definition question_words :: "string list" where
  "question_words = [''what'', ''when'', ''where'', ''how'', ''why'', ''need'', ''want'',
                     ''appointment'', ''doctor'', ''help'', ''please'']"

definition symptom_keywords :: "string list" where
  "symptom_keywords = [''pain'', ''dard'', ''fever'', ''bukhar'', ''cough'', ''khansi'',
                       ''headache'', ''sar dard'', ''checkup'', ''sick'', ''bimar'',
                       ''body pain'']"

text \<open>The age: a number next to an age word; otherwise, once the name is known, the
  first standalone number if it lies between 1 and 120.\<close>

definition extract_age :: "string \<Rightarrow> booking_context \<Rightarrow> booking_context" where
  "extract_age message c =
     (let age_match = search age_rx (lower message) in
      if age_match \<noteq> None \<and> age c = None
      then c\<lparr>age := Some (int_of_digits (match_group (the age_match) 1))\<rparr>
      else if age c = None \<and> name c \<noteq> None
      then (case search number_rx message of
              None \<Rightarrow> c
            | Some num_match \<Rightarrow>
                (let age_val = int_of_digits (match_group num_match 1) in
                 if 1 \<le> age_val \<and> age_val \<le> 120 then c\<lparr>age := Some age_val\<rparr> else c))
      else c)"

definition extract_phone :: "string \<Rightarrow> booking_context \<Rightarrow> booking_context" where
  "extract_phone message c =
     (case search phone_rx message of
        None \<Rightarrow> c
      | Some phone_match \<Rightarrow>
          if phone c = None
          then c\<lparr>phone := Some (remove_char CHR ''-'' (remove_char CHR '' '' (match_group phone_match 0)))\<rparr>
          else c)"

text \<open>The loop over \<open>name_patterns\<close>: the first pattern that matches sets the name.\<close>

fun first_name_match :: "rx list \<Rightarrow> string \<Rightarrow> string option" where
  "first_name_match [] message = None"
| "first_name_match (pattern # rest) message =
     (case search pattern message of
        Some m \<Rightarrow> Some (title (match_group m 1))
      | None \<Rightarrow> first_name_match rest message)"

definition extract_name :: "string \<Rightarrow> booking_context \<Rightarrow> booking_context" where
  "extract_name message c =
     (if name c = None
      then (let c1 = (case first_name_match name_patterns message of
                        Some n \<Rightarrow> c\<lparr>name := Some n\<rparr>
                      | None \<Rightarrow> c)
            in if name c1 = None
               then (let words = split message in
                     if 2 \<le> length words \<and> length words \<le> 4 \<and> search digit message = None
                     then (if \<not> any_in question_words (lower message)
                           then c1\<lparr>name := Some (join '' '' (map capitalize words))\<rparr>
                           else c1)
                     else c1)
               else c1)
      else c)"

definition extract_reason :: "string \<Rightarrow> booking_context \<Rightarrow> booking_context" where
  "extract_reason message c =
     (if any_in symptom_keywords (lower message) \<and> reason c = None
      then c\<lparr>reason := Some message\<rparr>
      else c)"

text \<open>\<open>today\<close> is \<open>datetime.now()\<close>'s date, an input of the turn.\<close>

definition extract_date :: "date \<Rightarrow> string \<Rightarrow> booking_context \<Rightarrow> booking_context" where
  "extract_date today message c =
     (let message_lower = lower message in
      if contains ''tomorrow'' message_lower \<or> contains ''kal'' message_lower
      then c\<lparr>date := Some (strftime_ymd (next_day today))\<rparr>
      else if contains ''today'' message_lower \<or> contains ''aaj'' message_lower
      then c\<lparr>date := Some (strftime_ymd today)\<rparr>
      else c)"

definition extract_patient_info :: "date \<Rightarrow> string \<Rightarrow> booking_context \<Rightarrow> booking_context" where
  "extract_patient_info today message c =
     extract_date today message
       (extract_reason message
          (extract_name message
             (extract_phone message
                (extract_age message c))))"

section \<open>The slot calendar: \<open>tools.py\<close>\<close>

text \<open>A \<open>datetime.time\<close> of the grid is its hour and minute.\<close>

type_synonym time_of_day = "nat \<times> nat"

datatype error = ValueError | KeyError | IndexError

text \<open>The three settings \<open>tools.py\<close> reads from the environment when it is loaded
  (defaults 10, 20 and 30).\<close>

record config =
  CLINIC_START_HOUR :: int
  CLINIC_END_HOUR :: int
  SLOT_DURATION_MINUTES :: int

definition default_config :: config where
  "default_config = \<lparr>CLINIC_START_HOUR = 10, CLINIC_END_HOUR = 20, SLOT_DURATION_MINUTES = 30\<rparr>"

text \<open>
  The \<open>while\<close> loop of \<open>generate_time_slots\<close>. \<open>time(hour=h, minute=m)\<close> raises
  \<open>ValueError\<close> outside 0..23 and 0..59. With a step of 0 the loop never ends: the
  result \<open>None\<close> is the call that does not return.
\<close>

partial_function (option) slots_loop ::
  "int \<Rightarrow> int \<Rightarrow> int \<Rightarrow> int \<Rightarrow> time_of_day list \<Rightarrow> (error + time_of_day list) option" where
  "slots_loop end_hour duration current_hour current_minute slots =
     (if current_hour < end_hour
      then (if 0 \<le> current_hour \<and> current_hour \<le> 23 \<and> 0 \<le> current_minute \<and> current_minute \<le> 59
            then (if current_minute + duration \<ge> 60
                  then slots_loop end_hour duration (current_hour + 1) 0
                         (slots @ [(nat current_hour, nat current_minute)])
                  else slots_loop end_hour duration current_hour (current_minute + duration)
                         (slots @ [(nat current_hour, nat current_minute)]))
            else Some (Inl ValueError))
      else Some (Inr slots))"

declare slots_loop.simps [code]

definition generate_time_slots :: "config \<Rightarrow> (error + time_of_day list) option" where
  "generate_time_slots cfg =
     slots_loop (CLINIC_END_HOUR cfg) (SLOT_DURATION_MINUTES cfg) (CLINIC_START_HOUR cfg) 0 []"

text \<open>\<open>t.strftime("%I:%M %p")\<close>.\<close>

definition strftime_12h :: "time_of_day \<Rightarrow> string" where
  "strftime_12h t =
     (case t of (h, m) \<Rightarrow>
        decimal 2 (if h mod 12 = 0 then 12 else h mod 12) @ '':'' @ decimal 2 m @ '' '' @
        (if h < 12 then ''AM'' else ''PM''))"

subsection \<open>The tables of \<open>models.py\<close>\<close>

datatype status = Pending | Confirmed | Completed | Cancelled

record patient =
  patient_id :: nat
  patient_name :: string
  patient_phone :: string
  patient_age :: nat

record appointment =
  appointment_id :: nat
  appt_patient_id :: nat
  appt_date :: date
  appt_time :: time_of_day
  appt_reason :: string
  appt_status :: status

record database =
  patients :: "patient list"
  appointments :: "appointment list"

text \<open>An integer primary key: one more than the largest key in the table.\<close>

definition next_id :: "nat list \<Rightarrow> nat" where
  "next_id ids = Suc (foldr max ids 0)"

text \<open>
  What a turn is given from outside: the current date (\<open>date.today()\<close>,
  \<open>datetime.now()\<close>), whether the database answers (when it does not, the first use of
  the session raises), and the settings.
\<close>

record env =
  now_date :: date
  db_up :: bool
  clinic :: config

text \<open>The filter \<open>Appointment.status.in_(["pending", "confirmed"])\<close>.\<close>

definition active :: "appointment \<Rightarrow> bool" where
  "active a = (appt_status a = Pending \<or> appt_status a = Confirmed)"

subsection \<open>\<open>get_available_slots\<close>\<close>

definition past_date_msg :: string where
  "past_date_msg =
     ''Sorry, I cannot book appointments for past dates. Please choose today or a future date.''"

definition no_slots_msg :: "string \<Rightarrow> string" where
  "no_slots_msg appointment_date =
     ''Sorry, no slots available on '' @ appointment_date @ ''. Please try another date.''"

definition slots_msg :: "string \<Rightarrow> time_of_day list \<Rightarrow> string" where
  "slots_msg appointment_date available =
     ''Available slots on '' @ appointment_date @ '': '' @ join '', '' (map strftime_12h available)"

definition invalid_date_msg :: string where
  "invalid_date_msg = ''Invalid date format. Please use YYYY-MM-DD format (e.g., 2024-01-15)''"

definition slots_error_msg :: string where
  "slots_error_msg = ''Sorry, I encountered an error checking availability. Please try again.''"

text \<open>The times of the appointments that the query of \<open>get_available_slots\<close> returns.\<close>

definition booked_times :: "database \<Rightarrow> date \<Rightarrow> time_of_day list" where
  "booked_times d target_date =
     map appt_time (filter (\<lambda>a. appt_date a = target_date \<and> active a) (appointments d))"

definition available_slots :: "database \<Rightarrow> date \<Rightarrow> time_of_day list \<Rightarrow> time_of_day list" where
  "available_slots d target_date all_slots =
     filter (\<lambda>slot. slot \<notin> set (booked_times d target_date)) all_slots"

definition get_available_slots :: "env \<Rightarrow> database \<Rightarrow> string \<Rightarrow> string option" where
  "get_available_slots e d appointment_date =
     (case strptime_ymd appointment_date of
        None \<Rightarrow> Some invalid_date_msg
      | Some target_date \<Rightarrow>
          if date_less target_date (now_date e) then Some past_date_msg
          else (case generate_time_slots (clinic e) of
                  None \<Rightarrow> None
                | Some (Inl err) \<Rightarrow>
                    Some (if err = ValueError then invalid_date_msg else slots_error_msg)
                | Some (Inr all_slots) \<Rightarrow>
                    if \<not> db_up e then Some slots_error_msg
                    else (let available = available_slots d target_date all_slots in
                          if available = [] then Some (no_slots_msg appointment_date)
                          else Some (slots_msg appointment_date available))))"

section \<open>The urgency gate: \<open>prompts.py\<close>\<close>

definition URGENCY_KEYWORDS :: "string list" where
  "URGENCY_KEYWORDS =
     [''chest pain'', ''heart attack'', ''can't breathe'', ''difficulty breathing'',
      ''severe bleeding'', ''unconscious'', ''seizure'', ''stroke'',
      ''severe pain'', ''emergency'', ''urgent'',
      ''seene mein dard'', ''dil ka daura'', ''sans nahi aa rahi'',
      ''khoon beh raha'', ''behosh'', ''bohot dard'', ''emergency'']"

definition is_urgent :: "string \<Rightarrow> bool" where
  "is_urgent text = any_in URGENCY_KEYWORDS (lower text)"

section \<open>The booking ledger\<close>

text \<open>
  \<open>datetime.strptime(s, "%H:%M").time()\<close>: the library's expression for the format is
  \<open>(2[0-3]|[0-1]\d|\d):([0-5]\d|\d)\<close>, and text left after it is a \<open>ValueError\<close> (\<open>None\<close>).
\<close>

definition hm_rx :: rx where
  "hm_rx = seqs
     [Grp 1 (alts [Seq (chr CHR ''2'') (Cls (\<lambda>c. c \<in> set ''0123'')),
                   Seq (Cls (\<lambda>c. c \<in> set ''01'')) digit,
                   digit]),
      chr CHR '':'',
      Grp 2 (alts [Seq (Cls (\<lambda>c. c \<in> set ''012345'')) digit, digit])]"

definition strptime_hm :: "string \<Rightarrow> time_of_day option" where
  "strptime_hm s =
     (case match_prefix hm_rx s of
        None \<Rightarrow> None
      | Some found \<Rightarrow>
          if snd found \<noteq> [] then None
          else Some (int_of_digits (match_group (fst found) 1),
                     int_of_digits (match_group (fst found) 2)))"

text \<open>\<open>db.query(Patient).filter(Patient.phone == phone).first()\<close>, and the patient
  row created when there is none. The result is the patient's key and the table.\<close>

definition find_or_create_patient ::
  "database \<Rightarrow> string \<Rightarrow> string \<Rightarrow> nat \<Rightarrow> nat \<times> patient list" where
  "find_or_create_patient d pname pphone page =
     (case find (\<lambda>p. patient_phone p = pphone) (patients d) of
        Some p \<Rightarrow> (patient_id p, patients d)
      | None \<Rightarrow>
          (let new_id = next_id (map patient_id (patients d)) in
           (new_id, patients d @ [\<lparr>patient_id = new_id, patient_name = pname,
                                    patient_phone = pphone, patient_age = page\<rparr>])))"

definition new_appointment ::
  "database \<Rightarrow> nat \<Rightarrow> date \<Rightarrow> time_of_day \<Rightarrow> string \<Rightarrow> appointment" where
  "new_appointment d pid target_date target_time why =
     \<lparr>appointment_id = next_id (map appointment_id (appointments d)), appt_patient_id = pid,
      appt_date = target_date, appt_time = target_time, appt_reason = why,
      appt_status = Confirmed\<rparr>"

text \<open>The outcomes of the tool \<open>book_appointment\<close>, one for each \<open>return\<close>.\<close>

datatype booking_outcome =
    Urgent_advice
  | Invalid_date_or_time
  | Slot_just_booked string string
  | Appointment_confirmed string date time_of_day string
  | Booking_error

text \<open>
  \<open>book_appointment\<close>. When the slot is taken the function returns before
  \<open>db.commit()\<close>, so a patient row flushed just before is not kept.
\<close>

definition book_appointment ::
  "env \<Rightarrow> database \<Rightarrow> string \<Rightarrow> string \<Rightarrow> nat \<Rightarrow> string \<Rightarrow> string \<Rightarrow> string \<Rightarrow>
   booking_outcome \<times> database" where
  "book_appointment e d pname pphone page appointment_date appointment_time why =
     (if is_urgent why then (Urgent_advice, d)
      else case strptime_ymd appointment_date of
        None \<Rightarrow> (Invalid_date_or_time, d)
      | Some target_date \<Rightarrow>
         (case strptime_hm appointment_time of
            None \<Rightarrow> (Invalid_date_or_time, d)
          | Some target_time \<Rightarrow>
              if \<not> db_up e then (Booking_error, d)
              else (case find_or_create_patient d pname pphone page of (pid, patients') \<Rightarrow>
                case find (\<lambda>a. appt_date a = target_date \<and> appt_time a = target_time \<and> active a)
                       (appointments d) of
                  Some existing \<Rightarrow> (Slot_just_booked appointment_time appointment_date, d)
                | None \<Rightarrow>
                    (Appointment_confirmed pname target_date target_time pphone,
                     d\<lparr>patients := patients',
                       appointments := appointments d @
                         [new_appointment d pid target_date target_time why]\<rparr>))))"

text \<open>The property of the ledger: no two active appointments share a date and time.\<close>

definition no_double_booking :: "database \<Rightarrow> bool" where
  "no_double_booking d =
     distinct (map (\<lambda>a. (appt_date a, appt_time a)) (filter active (appointments d)))"

section \<open>The dialogue engine: \<open>clinic_agent.py\<close>\<close>

subsection \<open>Replies\<close>

text \<open>
  Every reply of the engine is one of the fixed messages of the source, some with
  values filled in; the constructors name them. \<open>Slots_offer s\<close> is the text \<open>s\<close>
  returned by \<open>get_available_slots\<close> followed by the question which time works best.
  \<open>Goodbye r\<close> is the closing message built around the booking result \<open>r\<close>.
\<close>

datatype sentiment = Positive | Negative | Neutral

datatype booking_result =
    Booked "string option" date time_of_day string
  | Booking_failed

datatype reply =
    Urgent_advisory
  | Welcome_warm
  | Welcome_plain
  | Small_talk_ack sentiment
  | Ask_name
  | Ask_age string
  | Ask_phone
  | Ask_reason
  | Ask_date
  | Slots_offer string
  | Goodbye booking_result
  | Ask_time
  | Default_reply
  | Error_apology

datatype message = User string | Assistant reply

record session =
  messages :: "message list"
  ctx :: booking_context

record world =
  conversation_states :: "string \<Rightarrow> session option"
  db :: database

definition fresh_session :: session where
  "fresh_session = \<lparr>messages = [], ctx = empty_context\<rparr>"

text \<open>\<open>get_conversation_state\<close>: the session of the phone number, created when absent.\<close>

definition get_conversation_state ::
  "string \<Rightarrow> (string \<Rightarrow> session option) \<Rightarrow> session \<times> (string \<Rightarrow> session option)" where
  "get_conversation_state ph states =
     (case states ph of
        None \<Rightarrow> (fresh_session, states(ph \<mapsto> fresh_session))
      | Some s \<Rightarrow> (s, states))"

subsection \<open>Time selection\<close>

text \<open>\<open>(\d{1,2}):?(\d{2})?\s*(am|pm|AM|PM)?\<close>\<close>

definition meridiem_rx :: rx where
  "meridiem_rx = alts [lit ''am'', lit ''pm'', lit ''AM'', lit ''PM'']"

definition time_rx1 :: rx where
  "time_rx1 = seqs
     [Grp 1 (Rep 1 2 digit), opt (chr CHR '':''), opt (Grp 2 (Rep 2 2 digit)), Star space,
      opt (Grp 3 meridiem_rx)]"

text \<open>\<open>(\d{1,2})\s*(am|pm|AM|PM)\<close>\<close>

definition time_rx2 :: rx where
  "time_rx2 = seqs [Grp 1 (Rep 1 2 digit), Star space, Grp 2 meridiem_rx]"

text \<open>Each pattern with the number of groups it has.\<close>

definition time_patterns :: "(rx \<times> nat) list" where
  "time_patterns = [(time_rx1, 3), (time_rx2, 2)]"

text \<open>\<open>int(s)\<close> on any string: \<open>ValueError\<close> unless \<open>s\<close> is a number.\<close>

definition py_int :: "string \<Rightarrow> error + nat" where
  "py_int s = (if s \<noteq> [] \<and> list_all is_digit s then Inr (int_of_digits s) else Inl ValueError)"

text \<open>
  The body of the loop once a pattern with \<open>ngroups\<close> groups has matched: the hour, the
  minute and the marker are read from groups 1, 2 and 3 (a group the pattern does not
  have is an \<open>IndexError\<close>), and the hour is brought to the 24-hour clock.
\<close>

definition parse_time :: "nat \<Rightarrow> caps \<Rightarrow> error + (nat \<times> nat)" where
  "parse_time ngroups m =
     (let hour = int_of_digits (match_group m 1) in
      case (if match_group m 2 \<noteq> [] then py_int (match_group m 2) else Inr 0) of
        Inl err \<Rightarrow> Inl err
      | Inr minute \<Rightarrow>
          if ngroups < 3 then Inl IndexError
          else (let meridiem = (if match_group m 3 \<noteq> [] then Some (lower (match_group m 3)) else None) in
                if meridiem = Some ''pm'' \<and> hour < 12 then Inr (hour + 12, minute)
                else if meridiem = Some ''am'' \<and> hour = 12 then Inr (0, minute)
                else Inr (hour, minute)))"

text \<open>\<open>f"{hour:02d}:{minute:02d}"\<close>\<close>

definition time_str :: "nat \<times> nat \<Rightarrow> string" where
  "time_str hm = fmt_02d (fst hm) @ '':'' @ fmt_02d (snd hm)"

text \<open>The first pattern of the list that matches the message, with what the loop body
  reads from the match.\<close>

fun first_time_match :: "(rx \<times> nat) list \<Rightarrow> string \<Rightarrow> (error + (nat \<times> nat)) option" where
  "first_time_match [] message = None"
| "first_time_match (p # rest) message =
     (case search (fst p) message of
        Some m \<Rightarrow> Some (parse_time (snd p) m)
      | None \<Rightarrow> first_time_match rest message)"

subsection \<open>The inline booking of \<open>generate_response\<close>\<close>

text \<open>
  The \<open>try\<close> block that books at the selected time. Whatever is raised inside it (a
  missing date, a time that \<open>strptime\<close> rejects, the database) gives the result
  \<open>Booking_failed\<close> and leaves the tables as they were.
\<close>

definition book_inline ::
  "env \<Rightarrow> database \<Rightarrow> string \<Rightarrow> booking_context \<Rightarrow> string \<Rightarrow> booking_result \<times> database" where
  "book_inline e d ph c tstr =
     (case date c of
        None \<Rightarrow> (Booking_failed, d)
      | Some date_text \<Rightarrow>
         (case strptime_ymd date_text of
            None \<Rightarrow> (Booking_failed, d)
          | Some target_date \<Rightarrow>
             (case strptime_hm tstr of
                None \<Rightarrow> (Booking_failed, d)
              | Some target_time \<Rightarrow>
                  if \<not> db_up e then (Booking_failed, d)
                  else (let pphone = (case phone c of Some p \<Rightarrow> p | None \<Rightarrow> ph) in
                        case find_or_create_patient d
                               (case name c of Some n \<Rightarrow> n | None \<Rightarrow> ''Unknown'') pphone
                               (case age c of Some a \<Rightarrow> a | None \<Rightarrow> 0) of
                          (pid, patients') \<Rightarrow>
                            (Booked (name c) target_date target_time pphone,
                             d\<lparr>patients := patients',
                               appointments := appointments d @
                                 [new_appointment d pid target_date target_time
                                    (case reason c of Some r \<Rightarrow> r
                                     | None \<Rightarrow> ''General consultation'')]\<rparr>)))))"

subsection \<open>\<open>generate_response\<close>\<close>

text \<open>
  What one call leaves behind: the reply or the exception that leaves the function, the
  context dictionary as mutated, whether \<open>conversation_states[phone]\<close> was replaced by
  a fresh session, and the tables.
\<close>

record turn =
  outcome :: "error + reply"
  ctx_after :: booking_context
  cleared :: bool
  db_after :: database

definition needed_fields :: "booking_context \<Rightarrow> string list" where
  "needed_fields c =
     (if name c = None then [''name''] else []) @
     (if age c = None then [''age''] else []) @
     (if phone c = None then [''phone''] else []) @
     (if reason c = None then [''reason''] else []) @
     (if date c = None then [''date''] else [])"

definition ask_for :: "string \<Rightarrow> booking_context \<Rightarrow> reply option" where
  "ask_for next_field c =
     (if next_field = ''name'' then Some Ask_name
      else if next_field = ''age'' then Some (Ask_age (case name c of Some n \<Rightarrow> n | None \<Rightarrow> []))
      else if next_field = ''phone'' then Some Ask_phone
      else if next_field = ''reason'' then Some Ask_reason
      else if next_field = ''date'' then Some Ask_date
      else None)"

definition small_talk_sentiment :: "string \<Rightarrow> sentiment" where
  "small_talk_sentiment message =
     (if any_in [''good'', ''fine'', ''great'', ''okay'', ''theek'', ''acha''] (lower message)
      then Positive
      else if any_in [''not good'', ''sick'', ''unwell'', ''pain'', ''bad'', ''bimar'']
                (lower message)
      then Negative
      else Neutral)"

text \<open>Stage 4: the time selection, the booking and the reset of the session.\<close>

definition select_time ::
  "env \<Rightarrow> database \<Rightarrow> string \<Rightarrow> booking_context \<Rightarrow> string \<Rightarrow> turn" where
  "select_time e d ph c message =
     (case (if time c = None then first_time_match time_patterns message else None) of
        Some (Inl err) \<Rightarrow>
          \<lparr>outcome = Inl err, ctx_after = c, cleared = False, db_after = d\<rparr>
      | Some (Inr hm) \<Rightarrow>
          (let c1 = c\<lparr>time := Some (time_str hm)\<rparr>;
               booking = book_inline e d ph c1 (time_str hm)
           in case date c1 of
                None \<Rightarrow>
                  \<lparr>outcome = Inl KeyError, ctx_after = c1, cleared = False,
                   db_after = snd booking\<rparr>
              | Some date_text \<Rightarrow>
                  \<lparr>outcome = Inr (Goodbye (fst booking)), ctx_after = c1, cleared = True,
                   db_after = snd booking\<rparr>)
      | None \<Rightarrow>
          \<lparr>outcome = Inr (if shown_slots c \<and> time c = None then Ask_time else Default_reply),
           ctx_after = c, cleared = False, db_after = d\<rparr>)"

definition generate_response ::
  "env \<Rightarrow> database \<Rightarrow> string \<Rightarrow> booking_context \<Rightarrow> string \<Rightarrow> message list \<Rightarrow> turn option" where
  "generate_response e d ph c message history =
     (let conversation_stage = (case stage c of None \<Rightarrow> Greeting | Some s \<Rightarrow> s) in
      if conversation_stage = Greeting \<or> length history \<le> 2
      then Some \<lparr>outcome = Inr (if any_in [''hello'', ''hi'', ''assalam'', ''salam'', ''hey'']
                                       (lower message)
                                 then Welcome_warm else Welcome_plain),
                 ctx_after = c\<lparr>stage := Some Small_talk\<rparr>, cleared = False, db_after = d\<rparr>
      else if conversation_stage = Small_talk
      then Some \<lparr>outcome = Inr (Small_talk_ack (small_talk_sentiment message)),
                 ctx_after = c\<lparr>stage := Some Booking\<rparr>, cleared = False, db_after = d\<rparr>
      else case (if conversation_stage = Booking
                 then (case needed_fields c of
                         [] \<Rightarrow> None
                       | next_field # others \<Rightarrow> ask_for next_field c)
                 else None) of
             Some question \<Rightarrow>
               Some \<lparr>outcome = Inr question, ctx_after = c, cleared = False, db_after = d\<rparr>
           | None \<Rightarrow>
               if conversation_stage = Booking \<and> date c \<noteq> None \<and> time c = None \<and>
                  \<not> shown_slots c
               then (case get_available_slots e d (the (date c)) of
                       None \<Rightarrow> None
                     | Some slots_result \<Rightarrow>
                         Some \<lparr>outcome = Inr (Slots_offer slots_result),
                               ctx_after = c\<lparr>shown_slots := True\<rparr>, cleared = False,
                               db_after = d\<rparr>)
               else Some (select_time e d ph c message))"

subsection \<open>\<open>chat_with_agent\<close>\<close>

text \<open>
  One turn. \<open>save_conversation\<close> and \<open>send_doctor_notification\<close> catch every
  exception themselves, and what they write (the conversations table, a message to the
  doctor) is read by nothing here; they are left out of the state.
  The session dictionary is shared: what the extractor and
  \<open>generate_response\<close> write into the context is in the store at once, also when an
  exception ends the turn. After a booking the store holds the fresh session, and the
  reply is appended to the old one, which nothing refers to any more. \<open>None\<close> is the
  turn that does not return.
\<close>

definition chat_with_agent :: "env \<Rightarrow> world \<Rightarrow> string \<Rightarrow> string \<Rightarrow> (reply \<times> world) option" where
  "chat_with_agent e w ph message =
     (case get_conversation_state ph (conversation_states w) of (state0, states) \<Rightarrow>
        (let state = state0\<lparr>messages := messages state0 @ [User message]\<rparr> in
         if is_urgent message
         then Some (Urgent_advisory,
                    w\<lparr>conversation_states :=
                        states(ph \<mapsto> state\<lparr>messages := messages state @ [Assistant Urgent_advisory]\<rparr>)\<rparr>)
         else (let c = extract_patient_info (now_date e) message (ctx state) in
               case generate_response e (db w) ph c message (messages state) of
                 None \<Rightarrow> None
               | Some t \<Rightarrow>
                  (case outcome t of
                     Inl err \<Rightarrow>
                       Some (Error_apology,
                             \<lparr>conversation_states = states(ph \<mapsto> state\<lparr>ctx := ctx_after t\<rparr>),
                              db = db_after t\<rparr>)
                   | Inr response \<Rightarrow>
                       Some (response,
                             \<lparr>conversation_states =
                                (if cleared t then states(ph \<mapsto> fresh_session)
                                 else states(ph \<mapsto> state\<lparr>ctx := ctx_after t,
                                        messages := messages state @ [Assistant response]\<rparr>)),
                              db = db_after t\<rparr>)))))"

subsection \<open>Observing turns\<close>

text \<open>The context of a phone number: the one \<open>get_conversation_state\<close> would hand out.\<close>

definition context_of :: "world \<Rightarrow> string \<Rightarrow> booking_context" where
  "context_of w ph = ctx (fst (get_conversation_state ph (conversation_states w)))"

text \<open>What a turn shows: the reply, and afterwards the context of the phone number and
  the tables.\<close>

definition observe_turn ::
  "env \<Rightarrow> world \<Rightarrow> string \<Rightarrow> string \<Rightarrow> (reply \<times> booking_context \<times> database) option" where
  "observe_turn e w ph message =
     (case chat_with_agent e w ph message of
        None \<Rightarrow> None
      | Some rw \<Rightarrow> Some (fst rw, context_of (snd rw) ph, db (snd rw)))"

text \<open>A sequence of turns, each a phone number with its message.\<close>

fun chat_all :: "env \<Rightarrow> world \<Rightarrow> (string \<times> string) list \<Rightarrow> world option" where
  "chat_all e w [] = Some w"
| "chat_all e w (pm # rest) =
     (case chat_with_agent e w (fst pm) (snd pm) of
        None \<Rightarrow> None
      | Some rw \<Rightarrow> chat_all e (snd rw) rest)"

subsection \<open>Concrete situations\<close>

definition clinic_day :: env where
  "clinic_day = \<lparr>now_date = (2026, 11, 4), db_up = True, clinic = default_config\<rparr>"

definition clinic_day_db_down :: env where
  "clinic_day_db_down = \<lparr>now_date = (2026, 11, 4), db_up = False, clinic = default_config\<rparr>"

definition empty_db :: database where
  "empty_db = \<lparr>patients = [], appointments = []\<rparr>"

definition new_world :: world where
  "new_world = \<lparr>conversation_states = (\<lambda>ph. None), db = empty_db\<rparr>"

text \<open>A party who has given all five fields and has been shown the slots of
  5 November 2026.\<close>

definition ready_context :: booking_context where
  "ready_context =
     \<lparr>name = Some ''Ahmed Khan'', age = Some 35, phone = Some ''03001234567'',
      reason = Some ''Fever and headache'', date = Some ''2026-11-05'', time = None,
      stage = Some Booking, shown_slots = True\<rparr>"

definition ready_session :: session where
  "ready_session =
     \<lparr>messages = [User ''Hello'', Assistant Welcome_warm, User ''fine'',
                  Assistant (Small_talk_ack Positive)],
      ctx = ready_context\<rparr>"

definition ready_world :: world where
  "ready_world =
     \<lparr>conversation_states = (\<lambda>ph. if ph = ''03001234567'' then Some ready_session else None),
      db = empty_db\<rparr>"

text \<open>The tables after a sequence of turns.\<close>

definition ledger_after :: "env \<Rightarrow> world \<Rightarrow> (string \<times> string) list \<Rightarrow> database option" where
  "ledger_after e w turns = map_option db (chat_all e w turns)"

text \<open>Two parties who each go from the greeting to the choice of 2:30 PM tomorrow.\<close>

definition two_parties :: "(string \<times> string) list" where
  "two_parties =
     [(''A'', ''Hello''), (''A'', ''Ahmed Khan''),
      (''A'', ''35 years old, fever, 0300-1234567, tomorrow''), (''A'', ''2:30 PM''),
      (''B'', ''Hi''), (''B'', ''Sara Ali''),
      (''B'', ''28 years old, cough, 0311-7654321, tomorrow''), (''B'', ''2:30 PM'')]"

text \<open>The tables those eight turns leave.\<close>

definition two_parties_ledger :: database where
  "two_parties_ledger =
     \<lparr>patients =
        [\<lparr>patient_id = 1, patient_name = ''Ahmed Khan'', patient_phone = ''03001234567'',
          patient_age = 35\<rparr>,
         \<lparr>patient_id = 2, patient_name = ''Sara Ali'', patient_phone = ''03117654321'',
          patient_age = 28\<rparr>],
      appointments =
        [\<lparr>appointment_id = 1, appt_patient_id = 1, appt_date = (2026, 11, 5),
          appt_time = (14, 30), appt_reason = ''35 years old, fever, 0300-1234567, tomorrow'',
          appt_status = Confirmed\<rparr>,
         \<lparr>appointment_id = 2, appt_patient_id = 2, appt_date = (2026, 11, 5),
          appt_time = (14, 30), appt_reason = ''28 years old, cough, 0311-7654321, tomorrow'',
          appt_status = Confirmed\<rparr>]\<rparr>"

text \<open>A party who has given all five fields and has not been shown the slots yet.\<close>

definition unshown_world :: world where
  "unshown_world =
     \<lparr>conversation_states =
        (\<lambda>ph. if ph = ''03001234567''
              then Some (ready_session\<lparr>ctx := ready_context\<lparr>shown_slots := False\<rparr>\<rparr>)
              else None),
      db = empty_db\<rparr>"

text \<open>Tables with three appointments on 5 November 2026: a confirmed one at 10:00, a
  completed one at 10:30 and a cancelled one at 11:00.\<close>

definition mixed_db :: database where
  "mixed_db =
     \<lparr>patients = [\<lparr>patient_id = 1, patient_name = ''Ahmed Khan'',
                    patient_phone = ''03001234567'', patient_age = 35\<rparr>],
      appointments =
        [\<lparr>appointment_id = 1, appt_patient_id = 1, appt_date = (2026, 11, 5),
          appt_time = (10, 0), appt_reason = ''fever'', appt_status = Confirmed\<rparr>,
         \<lparr>appointment_id = 2, appt_patient_id = 1, appt_date = (2026, 11, 5),
          appt_time = (10, 30), appt_reason = ''checkup'', appt_status = Completed\<rparr>,
         \<lparr>appointment_id = 3, appt_patient_id = 1, appt_date = (2026, 11, 5),
          appt_time = (11, 0), appt_reason = ''cough'', appt_status = Cancelled\<rparr>]\<rparr>"

definition default_grid :: "time_of_day list" where
  "default_grid =
     [(10, 0), (10, 30), (11, 0), (11, 30), (12, 0), (12, 30), (13, 0), (13, 30),
      (14, 0), (14, 30), (15, 0), (15, 30), (16, 0), (16, 30), (17, 0), (17, 30),
      (18, 0), (18, 30), (19, 0), (19, 30)]"

text \<open>A clinic that is open from 10 to 11, and tables in which both of its slots on
  5 November 2026 are taken.\<close>

definition short_day :: env where
  "short_day =
     \<lparr>now_date = (2026, 11, 4), db_up = True,
      clinic = \<lparr>CLINIC_START_HOUR = 10, CLINIC_END_HOUR = 11, SLOT_DURATION_MINUTES = 30\<rparr>\<rparr>"

definition full_db :: database where
  "full_db =
     \<lparr>patients = [\<lparr>patient_id = 1, patient_name = ''Ahmed Khan'',
                    patient_phone = ''03001234567'', patient_age = 35\<rparr>],
      appointments =
        [\<lparr>appointment_id = 1, appt_patient_id = 1, appt_date = (2026, 11, 5),
          appt_time = (10, 0), appt_reason = ''fever'', appt_status = Confirmed\<rparr>,
         \<lparr>appointment_id = 2, appt_patient_id = 1, appt_date = (2026, 11, 5),
          appt_time = (10, 30), appt_reason = ''cough'', appt_status = Pending\<rparr>]\<rparr>"

subsection \<open>Notions used in the proofs about time selection\<close>




section \<open>The booking ledger and double booking\<close>

text \<open>
  \<open>book_appointment\<close> looks for an active appointment at the date and time before it
  inserts, so a call of it keeps the ledger free of double bookings.
\<close>

lemma book_appointment_keeps_ledger:
  "no_double_booking d \<Longrightarrow>
   no_double_booking (snd (book_appointment e d pname pphone page ds ts why))"
  by (auto simp: book_appointment_def no_double_booking_def new_appointment_def active_def
        find_None_iff split: option.splits prod.splits)

text \<open>
  Claim C1 (no double booking: after any sequence of commit attempts, through the
  slot-selection step of the dialogue or through \<open>book_appointment\<close>, at most one
  pending or confirmed appointment exists at a date and time). The slot-selection step
  of \<open>generate_response\<close> inserts without the check that \<open>book_appointment\<close> makes:
  two parties who each go through the dialogue and choose 2:30 PM for the same day
  leave two confirmed appointments at that date and time.
\<close>

theorem dialogue_double_booking:
  "no_double_booking (db new_world) \<and>
   ledger_after clinic_day new_world two_parties = Some two_parties_ledger \<and>
   \<not> no_double_booking two_parties_ledger"
  by code_simp

section \<open>The urgency gate\<close>

text \<open>
  Claim C2, as the code has it: an utterance with an urgency keyword gets the fixed
  advisory reply, nothing is extracted and nothing is booked, and the context of the
  session is left as it was; it is not cleared.
\<close>

theorem urgent_turn:
  "is_urgent message \<Longrightarrow>
     observe_turn e w ph message = Some (Urgent_advisory, context_of w ph, db w)"
  by (simp add: observe_turn_def context_of_def chat_with_agent_def
        get_conversation_state_def split: option.splits)

theorem urgent_turn_witness:
  "is_urgent ''I have chest pain'' \<and>
   observe_turn clinic_day ready_world ''03001234567'' ''I have chest pain'' =
     Some (Urgent_advisory, context_of ready_world ''03001234567'', db ready_world)"
proof -
  have urgent: "is_urgent ''I have chest pain''"
    by code_simp
  from urgent_turn [OF urgent, of clinic_day ready_world "''03001234567''"] urgent
  show ?thesis by simp
qed

text \<open>
  Claim C2 as stated (the context is empty after an urgent turn) fails: the party who
  has given all five fields and then mentions chest pain keeps all of them.
\<close>

theorem urgent_context_kept:
  "is_urgent ''I have chest pain'' \<and>
   observe_turn clinic_day ready_world ''03001234567'' ''I have chest pain'' =
     Some (Urgent_advisory, ready_context, empty_db) \<and>
   ready_context \<noteq> empty_context"
  by code_simp

section \<open>A booking that fails\<close>

text \<open>
  Claim C3 (when the booking commit fails the turn returns an apology and the field
  context is preserved for a retry). With the database down, the party who chooses
  2:30 PM is told that the booking failed, inside the closing message, and the session
  is replaced by a fresh one as after a booking: every field is gone and nothing was
  stored.
\<close>

theorem failed_booking_clears_context:
  "context_of ready_world ''03001234567'' = ready_context \<and>
   observe_turn clinic_day_db_down ready_world ''03001234567'' ''2:30 PM'' =
     Some (Goodbye Booking_failed, empty_context, empty_db)"
  by code_simp

section \<open>The field extractor\<close>

text \<open>Each rule of the extractor writes its own field only.\<close>

lemma extract_age_others:
  "name (extract_age u c) = name c" "phone (extract_age u c) = phone c"
  "reason (extract_age u c) = reason c" "date (extract_age u c) = date c"
  "time (extract_age u c) = time c" "stage (extract_age u c) = stage c"
  "shown_slots (extract_age u c) = shown_slots c"
  by (simp_all add: extract_age_def Let_def split: option.splits)

lemma extract_phone_others:
  "name (extract_phone u c) = name c" "age (extract_phone u c) = age c"
  "reason (extract_phone u c) = reason c" "date (extract_phone u c) = date c"
  "time (extract_phone u c) = time c" "stage (extract_phone u c) = stage c"
  "shown_slots (extract_phone u c) = shown_slots c"
  by (simp_all add: extract_phone_def split: option.splits)

lemma extract_name_others:
  "age (extract_name u c) = age c" "phone (extract_name u c) = phone c"
  "reason (extract_name u c) = reason c" "date (extract_name u c) = date c"
  "time (extract_name u c) = time c" "stage (extract_name u c) = stage c"
  "shown_slots (extract_name u c) = shown_slots c"
  by (simp_all add: extract_name_def Let_def split: option.splits)

lemma extract_reason_others:
  "name (extract_reason u c) = name c" "age (extract_reason u c) = age c"
  "phone (extract_reason u c) = phone c" "date (extract_reason u c) = date c"
  "time (extract_reason u c) = time c" "stage (extract_reason u c) = stage c"
  "shown_slots (extract_reason u c) = shown_slots c"
  by (simp_all add: extract_reason_def)

lemma extract_date_others:
  "name (extract_date t u c) = name c" "age (extract_date t u c) = age c"
  "phone (extract_date t u c) = phone c" "reason (extract_date t u c) = reason c"
  "time (extract_date t u c) = time c" "stage (extract_date t u c) = stage c"
  "shown_slots (extract_date t u c) = shown_slots c"
  by (simp_all add: extract_date_def Let_def)

lemmas extract_others = extract_age_others extract_phone_others extract_name_others
  extract_reason_others extract_date_others

text \<open>The rules for the age, the phone, the name and the reason are guarded by the
  field being absent.\<close>

lemma extract_age_set: "age c \<noteq> None \<Longrightarrow> extract_age u c = c"
  by (cases "age c") (simp_all add: extract_age_def Let_def)

lemma extract_phone_set: "phone c \<noteq> None \<Longrightarrow> extract_phone u c = c"
  by (cases "phone c") (simp_all add: extract_phone_def split: option.splits)

lemma extract_name_set: "name c \<noteq> None \<Longrightarrow> extract_name u c = c"
  by (cases "name c") (simp_all add: extract_name_def)

lemma extract_reason_set: "reason c \<noteq> None \<Longrightarrow> extract_reason u c = c"
  by (cases "reason c") (simp_all add: extract_reason_def)

lemma extract_keeps_name: "name c \<noteq> None \<Longrightarrow> name (extract_patient_info t u c) = name c"
  by (simp add: extract_patient_info_def extract_others extract_name_set)

lemma extract_keeps_age: "age c \<noteq> None \<Longrightarrow> age (extract_patient_info t u c) = age c"
  by (simp add: extract_patient_info_def extract_others extract_age_set)

lemma extract_keeps_phone: "phone c \<noteq> None \<Longrightarrow> phone (extract_patient_info t u c) = phone c"
  by (simp add: extract_patient_info_def extract_others extract_phone_set)

lemma extract_keeps_reason:
  "reason c \<noteq> None \<Longrightarrow> reason (extract_patient_info t u c) = reason c"
  by (simp add: extract_patient_info_def extract_others extract_reason_set)

lemma extract_control:
  "time (extract_patient_info t u c) = time c"
  "stage (extract_patient_info t u c) = stage c"
  "shown_slots (extract_patient_info t u c) = shown_slots c"
  by (simp_all add: extract_patient_info_def extract_others)

text \<open>The date rule has no such guard; what it writes depends on the utterance and
  the current date only.\<close>

lemma extract_date_idem:
  "date (extract_patient_info t u (extract_patient_info t u c)) =
   date (extract_patient_info t u c)"
  by (simp add: extract_patient_info_def extract_others extract_date_def Let_def)

text \<open>
  Claim C4 (first write wins for the name, the age, the phone, the reason and the
  date). The four rules above keep a field that is set. The date rule does not: a
  context whose date was set by "today" has its date replaced by "Tomorrow".
\<close>

theorem extract_overwrites_date:
  "date (extract_patient_info (2026, 11, 4) ''today'' empty_context) = Some ''2026-11-04'' \<and>
   date (extract_patient_info (2026, 11, 4) ''Tomorrow''
           (extract_patient_info (2026, 11, 4) ''today'' empty_context)) = Some ''2026-11-05''"
  by code_simp

text \<open>
  Claim C5 (idempotent extraction): with the current date fixed, extracting twice from
  the same utterance gives, on every field that the context already had, what
  extracting once gives.
\<close>

theorem extract_idempotent:
  "(name c \<noteq> None \<longrightarrow>
      name (extract_patient_info t u (extract_patient_info t u c)) =
      name (extract_patient_info t u c)) \<and>
   (age c \<noteq> None \<longrightarrow>
      age (extract_patient_info t u (extract_patient_info t u c)) =
      age (extract_patient_info t u c)) \<and>
   (phone c \<noteq> None \<longrightarrow>
      phone (extract_patient_info t u (extract_patient_info t u c)) =
      phone (extract_patient_info t u c)) \<and>
   (reason c \<noteq> None \<longrightarrow>
      reason (extract_patient_info t u (extract_patient_info t u c)) =
      reason (extract_patient_info t u c)) \<and>
   (date c \<noteq> None \<longrightarrow>
      date (extract_patient_info t u (extract_patient_info t u c)) =
      date (extract_patient_info t u c))"
  by (simp add: extract_keeps_name extract_keeps_age extract_keeps_phone extract_keeps_reason
        extract_date_idem)

theorem extract_idempotent_witness:
  "(name ready_context \<noteq> None \<and> age ready_context \<noteq> None \<and> phone ready_context \<noteq> None \<and>
    reason ready_context \<noteq> None \<and> date ready_context \<noteq> None) \<and>
   name (extract_patient_info (2026, 11, 4) ''my name is Sara Ali, 28 years old, cough, today''
          (extract_patient_info (2026, 11, 4) ''my name is Sara Ali, 28 years old, cough, today''
             ready_context)) =
   name (extract_patient_info (2026, 11, 4) ''my name is Sara Ali, 28 years old, cough, today''
          ready_context) \<and>
   age (extract_patient_info (2026, 11, 4) ''my name is Sara Ali, 28 years old, cough, today''
          (extract_patient_info (2026, 11, 4) ''my name is Sara Ali, 28 years old, cough, today''
             ready_context)) =
   age (extract_patient_info (2026, 11, 4) ''my name is Sara Ali, 28 years old, cough, today''
          ready_context) \<and>
   phone (extract_patient_info (2026, 11, 4) ''my name is Sara Ali, 28 years old, cough, today''
          (extract_patient_info (2026, 11, 4) ''my name is Sara Ali, 28 years old, cough, today''
             ready_context)) =
   phone (extract_patient_info (2026, 11, 4) ''my name is Sara Ali, 28 years old, cough, today''
          ready_context) \<and>
   reason (extract_patient_info (2026, 11, 4) ''my name is Sara Ali, 28 years old, cough, today''
          (extract_patient_info (2026, 11, 4) ''my name is Sara Ali, 28 years old, cough, today''
             ready_context)) =
   reason (extract_patient_info (2026, 11, 4) ''my name is Sara Ali, 28 years old, cough, today''
          ready_context) \<and>
   date (extract_patient_info (2026, 11, 4) ''my name is Sara Ali, 28 years old, cough, today''
          (extract_patient_info (2026, 11, 4) ''my name is Sara Ali, 28 years old, cough, today''
             ready_context)) =
   date (extract_patient_info (2026, 11, 4) ''my name is Sara Ali, 28 years old, cough, today''
          ready_context)"
proof -
  have present:
    "name ready_context \<noteq> None \<and> age ready_context \<noteq> None \<and> phone ready_context \<noteq> None \<and>
     reason ready_context \<noteq> None \<and> date ready_context \<noteq> None"
    by (simp add: ready_context_def)
  from extract_idempotent [of ready_context "(2026, 11, 4)"
         "''my name is Sara Ali, 28 years old, cough, today''"] present
  show ?thesis by blast
qed

section \<open>Booking at a time outside the grid\<close>

text \<open>
  Claim C10 (the slot-selection step books at whatever time it parses, without looking
  at the offered slots or the grid). The party who was offered the slots from 10:00 AM
  to 07:30 PM and answers "3:00 AM" gets a confirmed appointment at 03:00.
\<close>

theorem booking_outside_grid:
  "get_available_slots clinic_day (db ready_world) ''2026-11-05'' =
     Some (''Available slots on 2026-11-05: 10:00 AM, 10:30 AM, 11:00 AM, 11:30 AM, '' @
           ''12:00 PM, 12:30 PM, 01:00 PM, 01:30 PM, 02:00 PM, 02:30 PM, 03:00 PM, 03:30 PM, '' @
           ''04:00 PM, 04:30 PM, 05:00 PM, 05:30 PM, 06:00 PM, 06:30 PM, 07:00 PM, 07:30 PM'') \<and>
   observe_turn clinic_day ready_world ''03001234567'' ''3:00 AM'' =
     Some (Goodbye (Booked (Some ''Ahmed Khan'') (2026, 11, 5) (3, 0) ''03001234567''),
           empty_context,
           \<lparr>patients = [\<lparr>patient_id = 1, patient_name = ''Ahmed Khan'',
                          patient_phone = ''03001234567'', patient_age = 35\<rparr>],
            appointments = [\<lparr>appointment_id = 1, appt_patient_id = 1,
                              appt_date = (2026, 11, 5), appt_time = (3, 0),
                              appt_reason = ''Fever and headache'',
                              appt_status = Confirmed\<rparr>]\<rparr>)"
  by code_simp

section \<open>The slot calendar\<close>

lemma past_msg_distinct:
  "past_date_msg \<noteq> no_slots_msg s'" "past_date_msg \<noteq> slots_msg s' av"
  by (simp_all add: past_date_msg_def no_slots_msg_def slots_msg_def)

lemma get_available_slots_past:
  "strptime_ymd s = Some D \<Longrightarrow> date_less D (now_date e) \<Longrightarrow>
   get_available_slots e d s = Some past_date_msg"
  by (simp add: get_available_slots_def)

lemma get_available_slots_open:
  "strptime_ymd s = Some D \<Longrightarrow> \<not> date_less D (now_date e) \<Longrightarrow>
   generate_time_slots (clinic e) = Some (Inr grid) \<Longrightarrow> db_up e \<Longrightarrow>
   get_available_slots e d s =
     Some (if available_slots d D grid = [] then no_slots_msg s
           else slots_msg s (available_slots d D grid))"
  by (simp add: get_available_slots_def Let_def)

lemma available_slots_alt:
  "available_slots d D grid =
     filter (\<lambda>t. \<not> list_ex (\<lambda>a. appt_date a = D \<and> appt_time a = t \<and>
                                 (appt_status a = Pending \<or> appt_status a = Confirmed))
                        (appointments d)) grid"
  unfolding available_slots_def
  by (rule filter_cong) (force simp: booked_times_def active_def list_ex_iff)+

lemma get_available_slots_returns:
  "generate_time_slots (clinic e) = Some g \<Longrightarrow> \<exists>s. get_available_slots e d x = Some s"
  by (auto simp: get_available_slots_def Let_def split: option.splits sum.splits)

text \<open>
  Claim C6 (past-date rejection): for a date before the current date
  \<open>get_available_slots\<close> returns the past-date message, whatever the tables hold. A date
  that is not past and has every slot taken gets the no-slots message, and the two
  results differ.
\<close>

theorem past_date_outcome:
  "strptime_ymd s = Some D \<Longrightarrow> date_less D (now_date e) \<Longrightarrow>
     get_available_slots e d s = Some past_date_msg \<and>
     (\<forall>s' D' grid d'.
        strptime_ymd s' = Some D' \<and> \<not> date_less D' (now_date e) \<and>
        generate_time_slots (clinic e) = Some (Inr grid) \<and> db_up e \<and>
        available_slots d' D' grid = [] \<longrightarrow>
          get_available_slots e d' s' = Some (no_slots_msg s') \<and>
          get_available_slots e d' s' \<noteq> get_available_slots e d s)"
  by (simp add: get_available_slots_past get_available_slots_open past_msg_distinct [symmetric])

theorem past_date_outcome_witness:
  "(strptime_ymd ''2026-11-03'' = Some (2026, 11, 3) \<and>
    date_less (2026, 11, 3) (now_date short_day) \<and>
    strptime_ymd ''2026-11-05'' = Some (2026, 11, 5) \<and>
    \<not> date_less (2026, 11, 5) (now_date short_day) \<and>
    generate_time_slots (clinic short_day) = Some (Inr [(10, 0), (10, 30)]) \<and>
    db_up short_day \<and>
    available_slots full_db (2026, 11, 5) [(10, 0), (10, 30)] = []) \<and>
   get_available_slots short_day empty_db ''2026-11-03'' = Some past_date_msg \<and>
   get_available_slots short_day full_db ''2026-11-05'' = Some (no_slots_msg ''2026-11-05'') \<and>
   get_available_slots short_day full_db ''2026-11-05'' \<noteq>
     get_available_slots short_day empty_db ''2026-11-03''"
proof -
  have past: "strptime_ymd ''2026-11-03'' = Some (2026, 11, 3)"
    "date_less (2026, 11, 3) (now_date short_day)"
    by code_simp+
  have full:
    "strptime_ymd ''2026-11-05'' = Some (2026, 11, 5) \<and>
     \<not> date_less (2026, 11, 5) (now_date short_day) \<and>
     generate_time_slots (clinic short_day) = Some (Inr [(10, 0), (10, 30)]) \<and>
     db_up short_day \<and>
     available_slots full_db (2026, 11, 5) [(10, 0), (10, 30)] = []"
    by code_simp
  from past_date_outcome [OF past, of empty_db] past full
  show ?thesis by blast
qed

text \<open>
  Claim C9, as the code has it: for a date that is not past, the slots listed are the
  slots of the grid, in order, without the times of the pending and the confirmed
  appointments of that date. A completed appointment, like a cancelled one, leaves its
  time available.
\<close>

theorem available_slots_active_only:
  "strptime_ymd s = Some D \<Longrightarrow> \<not> date_less D (now_date e) \<Longrightarrow>
   generate_time_slots (clinic e) = Some (Inr grid) \<Longrightarrow> db_up e \<Longrightarrow>
   get_available_slots e d s =
     Some (let free = filter (\<lambda>t. \<not> list_ex (\<lambda>a. appt_date a = D \<and> appt_time a = t \<and>
                                     (appt_status a = Pending \<or> appt_status a = Confirmed))
                                  (appointments d)) grid
           in if free = [] then no_slots_msg s else slots_msg s free)"
  by (simp add: get_available_slots_open available_slots_alt Let_def)

theorem available_slots_active_only_witness:
  "(strptime_ymd ''2026-11-05'' = Some (2026, 11, 5) \<and>
    \<not> date_less (2026, 11, 5) (now_date clinic_day) \<and>
    generate_time_slots (clinic clinic_day) = Some (Inr default_grid) \<and>
    db_up clinic_day) \<and>
   get_available_slots clinic_day mixed_db ''2026-11-05'' =
     Some (let free = filter (\<lambda>t. \<not> list_ex (\<lambda>a. appt_date a = (2026, 11, 5) \<and> appt_time a = t \<and>
                                     (appt_status a = Pending \<or> appt_status a = Confirmed))
                                  (appointments mixed_db)) default_grid
           in if free = [] then no_slots_msg ''2026-11-05''
              else slots_msg ''2026-11-05'' free)"
proof -
  have open_day: "strptime_ymd ''2026-11-05'' = Some (2026, 11, 5)"
    "\<not> date_less (2026, 11, 5) (now_date clinic_day)"
    "generate_time_slots (clinic clinic_day) = Some (Inr default_grid)"
    "db_up clinic_day"
    by code_simp+
  from available_slots_active_only [OF open_day, of mixed_db] open_day
  show ?thesis by blast
qed

text \<open>
  Claim C9 as stated (completed appointments are excluded from availability) fails:
  with a completed appointment at 10:30, the slot 10:30 is listed.
\<close>

theorem completed_slot_offered:
  "map appt_date (appointments mixed_db) = [(2026, 11, 5), (2026, 11, 5), (2026, 11, 5)] \<and>
   map appt_time (appointments mixed_db) = [(10, 0), (10, 30), (11, 0)] \<and>
   map appt_status (appointments mixed_db) = [Confirmed, Completed, Cancelled] \<and>
   get_available_slots clinic_day mixed_db ''2026-11-05'' =
     Some (slots_msg ''2026-11-05''
             [(10, 30), (11, 0), (11, 30), (12, 0), (12, 30), (13, 0), (13, 30),
              (14, 0), (14, 30), (15, 0), (15, 30), (16, 0), (16, 30), (17, 0), (17, 30),
              (18, 0), (18, 30), (19, 0), (19, 30)])"
  by code_simp

section \<open>Time selection before the slots are offered\<close>

lemma needed_fields_ask:
  "needed_fields c = f # fs \<Longrightarrow> \<exists>q. ask_for f c = Some q \<and> (\<forall>b. q \<noteq> Goodbye b)"
  by (auto simp: needed_fields_def ask_for_def split: if_splits)

lemma needed_fields_Nil: "needed_fields c = [] \<Longrightarrow> date c \<noteq> None"
  by (auto simp: needed_fields_def split: if_splits)

lemma select_time_chosen:
  "time c \<noteq> None \<Longrightarrow> \<not> shown_slots c \<Longrightarrow>
   select_time e d ph c m =
     \<lparr>outcome = Inr Default_reply, ctx_after = c, cleared = False, db_after = d\<rparr>"
  by (cases "time c") (simp_all add: select_time_def)

text \<open>While \<open>shown_slots\<close> is unset every stage of \<open>generate_response\<close> returns before
  the booking: the time and the tables stay as they are.\<close>

lemma generate_response_before_offer:
  assumes "\<not> shown_slots c" and "generate_time_slots (clinic e) = Some g"
  shows "\<exists>r c'. generate_response e d ph c m h =
            Some \<lparr>outcome = Inr r, ctx_after = c', cleared = False, db_after = d\<rparr> \<and>
          time c' = time c \<and> (\<forall>b. r \<noteq> Goodbye b)"
proof (cases "stage c = None \<or> stage c = Some Greeting \<or> length h \<le> 2")
  case True
  then show ?thesis
    by (auto simp: generate_response_def)
next
  case early: False
  show ?thesis
  proof (cases "stage c = Some Small_talk")
    case True
    with early show ?thesis
      by (auto simp: generate_response_def)
  next
    case False
    with early have booking: "stage c = Some Booking"
      by (cases "stage c"; cases "the (stage c)") auto
    show ?thesis
    proof (cases "needed_fields c")
      case (Cons f fs)
      from needed_fields_ask [OF Cons]
      obtain q where "ask_for f c = Some q" "\<forall>b. q \<noteq> Goodbye b"
        by blast
      with early booking Cons show ?thesis
        by (simp add: generate_response_def)
    next
      case Nil
      then have dated: "date c \<noteq> None" by (rule needed_fields_Nil)
      show ?thesis
      proof (cases "time c")
        case None
        from get_available_slots_returns [OF assms(2)]
        obtain s where "get_available_slots e d (the (date c)) = Some s" by blast
        with early booking Nil dated None assms(1) show ?thesis
          by (simp add: generate_response_def)
      next
        case (Some tm)
        with early booking Nil dated assms(1) show ?thesis
          by (simp add: generate_response_def select_time_chosen)
      qed
    qed
  qed
qed

text \<open>
  Claim C8 (no time selection before the slots are offered): in a session whose
  \<open>shown_slots\<close> is unset, a turn returns, leaves the time field as it was, leaves the
  tables as they were, and its reply is not the closing message of a booking. The
  premise on the grid says that \<open>generate_time_slots\<close> returns for the settings.
\<close>

theorem no_selection_before_offer:
  assumes "\<not> shown_slots (context_of w ph)" and "generate_time_slots (clinic e) = Some g"
  shows "\<exists>r c'. observe_turn e w ph message = Some (r, c', db w) \<and>
           time c' = time (context_of w ph) \<and> (\<forall>b. r \<noteq> Goodbye b)"
proof (cases "is_urgent message")
  case True
  then show ?thesis
    by (simp add: observe_turn_def context_of_def chat_with_agent_def
        get_conversation_state_def split: option.splits)
next
  case False
  obtain state0 states
    where st: "get_conversation_state ph (conversation_states w) = (state0, states)"
    by (cases "get_conversation_state ph (conversation_states w)")
  have c0: "context_of w ph = ctx state0"
    by (simp add: context_of_def st)
  define c where "c = extract_patient_info (now_date e) message (ctx state0)"
  have unshown: "\<not> shown_slots c" and same: "time c = time (ctx state0)"
    using assms(1) by (simp_all add: c_def c0 extract_control)
  from generate_response_before_offer [OF unshown assms(2), of "db w" ph message
      "messages state0 @ [User message]"]
  obtain r c' where
    gr: "generate_response e (db w) ph c message (messages state0 @ [User message]) =
           Some \<lparr>outcome = Inr r, ctx_after = c', cleared = False, db_after = db w\<rparr>"
    and tm: "time c' = time c" and nb: "\<forall>b. r \<noteq> Goodbye b"
    by blast
  have "observe_turn e w ph message = Some (r, c', db w)"
    using False st gr
    by (simp add: observe_turn_def chat_with_agent_def c_def context_of_def
        get_conversation_state_def)
  with tm nb same c0 show ?thesis
    by simp
qed

theorem no_selection_before_offer_witness:
  "(\<not> shown_slots (context_of unshown_world ''03001234567'') \<and>
    generate_time_slots (clinic clinic_day) = Some (Inr default_grid)) \<and>
   (\<exists>r c'. observe_turn clinic_day unshown_world ''03001234567'' ''2:00 PM'' =
              Some (r, c', db unshown_world) \<and>
            time c' = time (context_of unshown_world ''03001234567'') \<and>
            (\<forall>b. r \<noteq> Goodbye b))"
proof -
  have unshown: "\<not> shown_slots (context_of unshown_world ''03001234567'')"
    by code_simp
  have grid: "generate_time_slots (clinic clinic_day) = Some (Inr default_grid)"
    by code_simp
  from no_selection_before_offer [OF unshown grid, of "''2:00 PM''"] unshown grid
  show ?thesis by blast
qed

section \<open>Time selection: the 24-hour clock\<close>

subsection \<open>The matcher on classes, literals and runs\<close>










lemma starts_with_append: "starts_with m s \<Longrightarrow> \<exists>t. s = m @ t"
proof (induction m s rule: starts_with.induct)
  case (1 s)
  then show ?case by simp
next
  case (2 k ks)
  then show ?case by simp
next
  case (3 k ks c cs)
  then show ?case by auto
qed

lemma starts_with_take:
  "starts_with m s \<Longrightarrow> take (length s - length (drop (length m) s)) s = m"
proof -
  assume "starts_with m s"
  then obtain t where "s = m @ t"
    using starts_with_append by blast
  then show ?thesis by simp
qed



subsection \<open>The first time pattern on an hour, minutes and a marker\<close>























end
